theory Spec2Isabelle
  imports Main
begin

section \<open>JavaScript values and template variables\<close>

text \<open>
  The values a dashboard variable can carry when the host hands it to
  \<^verbatim>\<open>interpolateVariable\<close>: a scalar or a list, as the data model has it, and the
  values that stand for a missing one.  The carrier \<open>'n\<close> of JavaScript numbers is left
  abstract: the datasource never computes with a number, it only passes it on.
\<close>

datatype 'n jsval =
    JUndefined
  | JNull
  | JBool bool
  | is_JNumber: JNumber 'n
  | is_JString: JString string
  | is_JArray: JArray "'n jsval list"

record 'n variable =
  var_name :: string
  current :: "'n jsval"
  multi :: bool
  includeAll :: bool

text \<open>
  \<^verbatim>\<open>_.map(collection, f)\<close> of lodash: an array is mapped element by element, a
  string character by character, and a value that is neither a collection nor an
  object with keys of its own (\<^verbatim>\<open>null\<close>, \<^verbatim>\<open>undefined\<close>, a boolean, a number) gives the
  empty array.
\<close>

fun lodash_map :: "('n jsval \<Rightarrow> 'b) \<Rightarrow> 'n jsval \<Rightarrow> 'b list" where
  "lodash_map f (JArray vs) = map f vs"
| "lodash_map f (JString s) = map (\<lambda>c. f (JString [c])) s"
| "lodash_map f JUndefined = []"
| "lodash_map f JNull = []"
| "lodash_map f (JBool b) = []"
| "lodash_map f (JNumber n) = []"

text \<open>\<^verbatim>\<open>Array.prototype.join(sep)\<close> on an array of strings.\<close>

fun array_join :: "string \<Rightarrow> string list \<Rightarrow> string" where
  "array_join sep [] = []"
| "array_join sep [x] = x"
| "array_join sep (x # y # ys) = x @ sep @ array_join sep (y # ys)"

section \<open>interpolateVariable\<close>

text \<open>
  \<^verbatim>\<open>
  interpolateVariable = (value, variable) => {
      if (typeof value === 'string') {
          if (variable.multi || variable.includeAll) {
              return this.queryModel.quoteLiteral(value);
          } else {
              return value;
          }
      }
      if (typeof value === 'number') {
          return value;
      }
      const quotedValues = _.map(value, v => {
          return this.queryModel.quoteLiteral(v);
      });
      return quotedValues.join(',');
  };
  \<close>
  The first argument \<open>ql\<close> is \<^verbatim>\<open>this.queryModel.quoteLiteral\<close>, a method of the class
  \<^verbatim>\<open>BigQueryQuery\<close>, whose file is not part of the sources.  The result is a string
  or, for a number, the number itself.
\<close>

definition interpolateVariable ::
  "('n jsval \<Rightarrow> string) \<Rightarrow> 'n jsval \<Rightarrow> 'n variable \<Rightarrow> 'n jsval" where
  "interpolateVariable ql val variable =
     (case val of
        JString s \<Rightarrow>
          if multi variable \<or> includeAll variable then JString (ql val) else val
      | JNumber n \<Rightarrow> val
      | _ \<Rightarrow> JString (array_join '','' (lodash_map ql val)))"

text \<open>
  The text that replaces a token: the host's template service turns the value the
  formatter returned into a string, as \<^verbatim>\<open>String(v)\<close> does; \<open>nt\<close> is \<^verbatim>\<open>String(n)\<close> on
  numbers.  Inside an array, \<^verbatim>\<open>null\<close> and \<^verbatim>\<open>undefined\<close> give the empty text.
\<close>

fun js_text :: "('n \<Rightarrow> string) \<Rightarrow> 'n jsval \<Rightarrow> string" where
  "js_text nt (JString s) = s"
| "js_text nt (JNumber n) = nt n"
| "js_text nt (JBool b) = (if b then ''true'' else ''false'')"
| "js_text nt JNull = ''null''"
| "js_text nt JUndefined = ''undefined''"
| "js_text nt (JArray vs) =
     array_join '',''
       (map (\<lambda>v. case v of JNull \<Rightarrow> [] | JUndefined \<Rightarrow> [] | _ \<Rightarrow> js_text nt v) vs)"

text \<open>
  The elements of a variable's value: the members of a list, and a scalar by itself.
\<close>

fun elements :: "'n jsval \<Rightarrow> 'n jsval list" where
  "elements (JArray vs) = vs"
| "elements v = [v]"

section \<open>Literal quoting and token replacement\<close>

text \<open>
  Modelled from the spec: \<^verbatim>\<open>quoteLiteral\<close> is a method of \<^verbatim>\<open>BigQueryQuery\<close>
  (\<^verbatim>\<open>bigquery_query.ts\<close>), which is missing from the sources.  The spec (4.1): a
  string is wrapped in single quotes with embedded single quotes escaped (here:
  doubled); a number is emitted as it is, unquoted; each element of a list is quoted by
  the same rule and the results are joined with a comma, without brackets; null and
  undefined give the SQL \<^verbatim>\<open>NULL\<close> literal; any other value degrades to its string
  coercion.
\<close>

fun escape_quotes :: "string \<Rightarrow> string" where
  "escape_quotes [] = []"
| "escape_quotes (c # cs) =
     (if c = CHR 0x27 then CHR 0x27 # CHR 0x27 # escape_quotes cs
      else c # escape_quotes cs)"

fun quoteLiteral :: "('n \<Rightarrow> string) \<Rightarrow> 'n jsval \<Rightarrow> string" where
  "quoteLiteral nt (JString s) = CHR 0x27 # escape_quotes s @ [CHR 0x27]"
| "quoteLiteral nt (JNumber n) = nt n"
| "quoteLiteral nt (JArray vs) = array_join '','' (map (quoteLiteral nt) vs)"
| "quoteLiteral nt JNull = ''NULL''"
| "quoteLiteral nt JUndefined = ''NULL''"
| "quoteLiteral nt (JBool b) = (if b then ''true'' else ''false'')"

text \<open>
  Modelled from the spec: the token replacement is the host's template service
  (\<^verbatim>\<open>templateSrv.replace\<close>), which is not part of the sources.  The spec (4.2): every
  token \<^verbatim>\<open>${name}\<close> or \<^verbatim>\<open>[[name]]\<close> whose variable is in the map is replaced by what the
  formatter gives for the variable's current value; a token whose variable is not in
  the map is left untouched.
\<close>

fun text_until :: "string \<Rightarrow> string \<Rightarrow> string option" where
  "text_until cl [] = None"
| "text_until cl (c # cs) =
     (if take (length cl) (c # cs) = cl then Some []
      else map_option ((#) c) (text_until cl cs))"

definition token_at :: "string \<Rightarrow> (string \<times> nat) option" where
  "token_at s =
     (if take 2 s = ''${'' then
        map_option (\<lambda>name. (name, length name + 3)) (text_until ''}'' (drop 2 s))
      else if take 2 s = ''[['' then
        map_option (\<lambda>name. (name, length name + 4)) (text_until '']]'' (drop 2 s))
      else None)"

text \<open>The counter is the number of characters of a replaced token still to be skipped.\<close>

fun replace_from ::
  "('n \<Rightarrow> string) \<Rightarrow> ('n jsval \<Rightarrow> 'n variable \<Rightarrow> 'n jsval) \<Rightarrow>
   (string \<times> 'n variable) list \<Rightarrow> nat \<Rightarrow> string \<Rightarrow> string" where
  "replace_from nt fmt vars k [] = []"
| "replace_from nt fmt vars (Suc k) (c # cs) = replace_from nt fmt vars k cs"
| "replace_from nt fmt vars 0 (c # cs) =
     (case token_at (c # cs) of
        None \<Rightarrow> c # replace_from nt fmt vars 0 cs
      | Some (name, len) \<Rightarrow>
          (case map_of vars name of
             None \<Rightarrow> c # replace_from nt fmt vars 0 cs
           | Some v \<Rightarrow> js_text nt (fmt (current v) v) @ replace_from nt fmt vars (len - 1) cs))"

definition interpolate ::
  "('n \<Rightarrow> string) \<Rightarrow> ('n jsval \<Rightarrow> 'n variable \<Rightarrow> 'n jsval) \<Rightarrow>
   string \<Rightarrow> (string \<times> 'n variable) list \<Rightarrow> string" where
  "interpolate nt fmt rawSql vars = replace_from nt fmt vars 0 rawSql"

text \<open>
  Decimal text of an integer.  It is the \<^verbatim>\<open>String(n)\<close> of an integral number below
  \<^verbatim>\<open>1e21\<close> in magnitude; from there on JavaScript prints an exponent, and a number with
  a fraction is not an integer at all.  It serves as the number text of the sample
  inputs only, whose numbers are small.
\<close>

fun dec_nat :: "nat \<Rightarrow> string" where
  "dec_nat n =
     (if n < 10 then [char_of (48 + n)]
      else dec_nat (n div 10) @ [char_of (48 + n mod 10)])"

declare dec_nat.simps [simp del]

definition dec_int :: "int \<Rightarrow> string" where
  "dec_int i = (if i < 0 then CHR ''-'' # dec_nat (nat (- i)) else dec_nat (nat i))"

section \<open>The request executor\<close>

text \<open>
  \<^verbatim>\<open>backendSrv.datasourceRequest\<close> is the executor.  Every call of a collaborator is
  recorded in a trace; the executor's answer may depend on everything that happened
  before, so the same request can fail at first and succeed when it is issued again.
\<close>

datatype http_method = GET | POST

record tsdb_query =
  q_refId :: string
  q_datasourceId :: nat
  q_rawSql :: string
  q_format :: string

datatype request_data =
    NoData
  | QueryData string bool
  | TsdbData string string "tsdb_query list"

record request =
  req_url :: string
  req_method :: http_method
  req_data :: request_data

datatype 'qm event =
    is_Render: Render 'qm
  | is_ExpendMacros: ExpendMacros 'qm
  | is_DatasourceRequest: DatasourceRequest request

type_synonym ('qm, 'e, 'r) backend = "'qm event list \<Rightarrow> request \<Rightarrow> 'e + 'r"

definition datasourceRequest ::
  "('qm, 'e, 'r) backend \<Rightarrow> request \<Rightarrow> 'qm event list \<Rightarrow> ('e + 'r) \<times> 'qm event list" where
  "datasourceRequest be req trace = (be trace req, trace @ [DatasourceRequest req])"

text \<open>
  \<^verbatim>\<open>
  async doRequest(url, maxRetries = 1) {
      return this.backendSrv
          .datasourceRequest({ url: this.url + url, method: 'GET' })
          .catch(error => {
              if (maxRetries > 0) {
                  return this.doRequest(url, maxRetries - 1);
              }
              console.log(error);
              throw error;
          });
  }
  \<close>
  The second argument is \<^verbatim>\<open>this.url\<close>.  A rejected promise is \<open>Inl\<close>.
\<close>

function doRequest ::
  "('qm, 'e, 'r) backend \<Rightarrow> string \<Rightarrow> string \<Rightarrow> int \<Rightarrow> 'qm event list \<Rightarrow>
   ('e + 'r) \<times> 'qm event list" where
  "doRequest be this_url url maxRetries trace =
     (case datasourceRequest be
             \<lparr>req_url = this_url @ url, req_method = GET, req_data = NoData\<rparr> trace of
        (Inr response, trace') \<Rightarrow> (Inr response, trace')
      | (Inl error, trace') \<Rightarrow>
          if maxRetries > 0 then doRequest be this_url url (maxRetries - 1) trace'
          else (Inl error, trace'))"
  by pat_completeness auto
termination
  by (relation "measure (\<lambda>(be, this_url, url, maxRetries, trace). nat maxRetries)") auto

text \<open>
  \<^verbatim>\<open>
  async doQueryRequest(url, query, maxRetries = 1) {
      return this.backendSrv
          .datasourceRequest({
              url: this.url + url,
              method: 'POST',
              data: { query : query, useLegacySql: false },
          })
          .catch(error => {
              if (maxRetries > 0) {
                  return this.doQueryRequest(url,query, maxRetries - 1);
              }
              throw error;
          });
  }
  \<close>
\<close>

function doQueryRequest ::
  "('qm, 'e, 'r) backend \<Rightarrow> string \<Rightarrow> string \<Rightarrow> string \<Rightarrow> int \<Rightarrow> 'qm event list \<Rightarrow>
   ('e + 'r) \<times> 'qm event list" where
  "doQueryRequest be this_url url query maxRetries trace =
     (case datasourceRequest be
             \<lparr>req_url = this_url @ url, req_method = POST,
              req_data = QueryData query False\<rparr> trace of
        (Inr response, trace') \<Rightarrow> (Inr response, trace')
      | (Inl error, trace') \<Rightarrow>
          if maxRetries > 0 then doQueryRequest be this_url url query (maxRetries - 1) trace'
          else (Inl error, trace'))"
  by pat_completeness auto
termination
  by (relation "measure (\<lambda>(be, this_url, url, query, maxRetries, trace). nat maxRetries)") auto

declare doRequest.simps [simp del] doQueryRequest.simps [simp del]

section \<open>The datasource and its collaborators\<close>

record target =
  refId :: string
  rawSql :: string
  format :: string
  hide :: "bool option"

record 'n query_options =
  targets :: "target list"
  range_from :: 'n
  range_to :: 'n
  intervalMs :: 'n
  maxDataPoints :: 'n
  scopedVars :: "(string \<times> 'n variable) list"

record 'n annotation_options =
  annotation_name :: string
  annotation_rawQuery :: "string option"
  annotation_from :: 'n
  annotation_to :: 'n
  annotation_scopedVars :: "(string \<times> 'n variable) list"

record 'n payload =
  p_refId :: string
  p_intervalMs :: 'n
  p_maxDataPoints :: 'n
  p_datasourceId :: nat
  p_rawSql :: string
  p_format :: string

text \<open>
  The fields of \<^verbatim>\<open>this\<close> that \<^verbatim>\<open>query\<close> and \<^verbatim>\<open>annotationQuery\<close> read or assign.
  \<^verbatim>\<open>queryModel\<close> is reassigned for every target.
\<close>

record 'qm datasource =
  ds_id :: nat
  ds_url :: string
  baseUrl :: string
  projectName :: string
  queryModel :: 'qm

text \<open>
  The classes \<^verbatim>\<open>BigQueryQuery\<close> and \<^verbatim>\<open>ResponseParser\<close> and the host's template service
  are not part of the sources; their operations are parameters.  \<open>'qm\<close> is the state
  of a \<^verbatim>\<open>BigQueryQuery\<close> object; \<^verbatim>\<open>render\<close> and \<^verbatim>\<open>expend_macros\<close> return their result
  together with the state they leave the object in.  \<open>number_text\<close> is the
  \<^verbatim>\<open>valueOf().toString()\<close> of a point of the time range.
\<close>

record ('qm, 'n, 'r, 'd) collaborators =
  new_BigQueryQuery :: "target \<Rightarrow> (string \<times> 'n variable) list \<Rightarrow> 'qm"
  render :: "'qm \<Rightarrow> ('n jsval \<Rightarrow> 'n variable \<Rightarrow> 'n jsval) \<Rightarrow> string \<times> 'qm"
  expend_macros :: "'qm \<Rightarrow> 'n query_options \<Rightarrow> string \<times> 'qm"
  qm_quoteLiteral :: "'n jsval \<Rightarrow> string"
  parseDataQuery :: "'r \<Rightarrow> 'd"
  templateSrv_replace ::
    "string \<Rightarrow> (string \<times> 'n variable) list \<Rightarrow> ('n jsval \<Rightarrow> 'n variable \<Rightarrow> 'n jsval) \<Rightarrow> string"
  transformAnnotationResponse :: "'n annotation_options \<Rightarrow> 'r \<Rightarrow> 'd"
  number_text :: "'n \<Rightarrow> string"

section \<open>query\<close>

text \<open>
  \<^verbatim>\<open>
  const queries = _.filter(options.targets, target => {
      return target.hide !== true;
  }).map(target => {
      const queryModel = new BigQueryQuery(target, this.templateSrv, options.scopedVars);
      this.queryModel = queryModel
      return {
          refId: target.refId,
          intervalMs: options.intervalMs,
          maxDataPoints: options.maxDataPoints,
          datasourceId: this.id,
          rawSql: queryModel.render(this.interpolateVariable),
          format: target.format,
      };
  });
  \<close>
  \<open>visible\<close> is the filter, \<open>map_targets\<close> the map over what the filter kept.
\<close>

definition visible :: "target list \<Rightarrow> target list" where
  "visible ts = filter (\<lambda>target. hide target \<noteq> Some True) ts"

fun map_targets ::
  "('qm, 'n, 'r, 'd) collaborators \<Rightarrow> 'n query_options \<Rightarrow> target list \<Rightarrow>
   'qm datasource \<Rightarrow> 'qm event list \<Rightarrow>
   'n payload list \<times> 'qm datasource \<times> 'qm event list" where
  "map_targets C options [] this trace = ([], this, trace)"
| "map_targets C options (target # rest) this trace =
     (let qm = new_BigQueryQuery C target (scopedVars options);
          (sql, qm') = render C qm (interpolateVariable (qm_quoteLiteral C));
          this' = this\<lparr>queryModel := qm'\<rparr>;
          p = \<lparr>p_refId = refId target,
               p_intervalMs = intervalMs options,
               p_maxDataPoints = maxDataPoints options,
               p_datasourceId = ds_id this,
               p_rawSql = sql,
               p_format = format target\<rparr>;
          (ps, this'', trace') = map_targets C options rest this' (trace @ [Render qm])
      in (p # ps, this'', trace'))"

text \<open>
  \<^verbatim>\<open>
  query(options) {
      const queries = ...;
      if (queries.length === 0) {
          return this.$q.when({data: []});
      }
      let q = this.queryModel.expend_macros(options);
      const path = `v2/projects/${this.projectName}/queries`;
      return this.doQueryRequest(`${this.baseUrl}${path}`,q).then(response => {
          return new ResponseParser(this.$q).parseDataQuery(response);
      });
  }
  \<close>
\<close>

datatype 'd query_result = EmptyData | Parsed 'd

definition query ::
  "('qm, 'n, 'r, 'd) collaborators \<Rightarrow> ('qm, 'e, 'r) backend \<Rightarrow> 'qm datasource \<Rightarrow>
   'n query_options \<Rightarrow> 'qm event list \<Rightarrow>
   ('e + 'd query_result) \<times> 'qm datasource \<times> 'qm event list" where
  "query C be this options trace =
     (let (queries, this1, trace1) =
            map_targets C options (visible (targets options)) this trace
      in if length queries = 0 then (Inr EmptyData, this1, trace1)
         else
           let (q, qm') = expend_macros C (queryModel this1) options;
               trace2 = trace1 @ [ExpendMacros (queryModel this1)];
               this2 = this1\<lparr>queryModel := qm'\<rparr>;
               path = ''v2/projects/'' @ projectName this2 @ ''/queries'';
               (outcome, trace3) =
                 doQueryRequest be (ds_url this2) (baseUrl this2 @ path) q 1 trace2
           in (case outcome of
                 Inl error \<Rightarrow> (Inl error, this2, trace3)
               | Inr response \<Rightarrow> (Inr (Parsed (parseDataQuery C response)), this2, trace3)))"

section \<open>annotationQuery\<close>

text \<open>
  \<^verbatim>\<open>
  annotationQuery(options) {
      if (!options.annotation.rawQuery) {
          return this.$q.reject({
              message: 'Query missing in annotation definition',
          });
      }
      const query = {
          refId: options.annotation.name,
          datasourceId: this.id,
          rawSql: this.templateSrv.replace(options.annotation.rawQuery, options.scopedVars,
                                           this.interpolateVariable),
          format: 'table',
      };
      return this.backendSrv
          .datasourceRequest({
              url: '/api/tsdb/query',
              method: 'POST',
              data: {
                  from: options.range.from.valueOf().toString(),
                  to: options.range.to.valueOf().toString(),
                  queries: [query],
              },
          })
          .then(data => this.responseParser.transformAnnotationResponse(options, data));
  }
  \<close>
  A missing \<^verbatim>\<open>rawQuery\<close> is \<open>None\<close>; it is falsy when it is missing or the empty string.
\<close>

datatype 'e failure = Rejected string | ExecutorError 'e

definition annotationQuery ::
  "('qm, 'n, 'r, 'd) collaborators \<Rightarrow> ('qm, 'e, 'r) backend \<Rightarrow> 'qm datasource \<Rightarrow>
   'n annotation_options \<Rightarrow> 'qm event list \<Rightarrow> ('e failure + 'd) \<times> 'qm event list" where
  "annotationQuery C be this options trace =
     (case annotation_rawQuery options of
        None \<Rightarrow> (Inl (Rejected ''Query missing in annotation definition''), trace)
      | Some rawQuery \<Rightarrow>
          if rawQuery = [] then
            (Inl (Rejected ''Query missing in annotation definition''), trace)
          else
            let query = \<lparr>q_refId = annotation_name options,
                         q_datasourceId = ds_id this,
                         q_rawSql = templateSrv_replace C rawQuery (annotation_scopedVars options)
                                      (interpolateVariable (qm_quoteLiteral C)),
                         q_format = ''table''\<rparr>;
                (outcome, trace') =
                  datasourceRequest be
                    \<lparr>req_url = ''/api/tsdb/query'', req_method = POST,
                     req_data = TsdbData (number_text C (annotation_from options))
                                         (number_text C (annotation_to options)) [query]\<rparr>
                    trace
            in (case outcome of
                  Inl error \<Rightarrow> (Inl (ExecutorError error), trace')
                | Inr data \<Rightarrow> (Inr (transformAnnotationResponse C options data), trace')))"

section \<open>Order of events in a trace\<close>

text \<open>
  \<open>occurs_before P Q trace\<close>: the trace has an event of kind \<open>P\<close> with no event of
  kind \<open>Q\<close> before it and an event of kind \<open>Q\<close> after it.
\<close>

fun occurs_before :: "('a \<Rightarrow> bool) \<Rightarrow> ('a \<Rightarrow> bool) \<Rightarrow> 'a list \<Rightarrow> bool" where
  "occurs_before P Q [] = False"
| "occurs_before P Q (x # xs) =
     (if P x then list_ex Q xs else if Q x then False else occurs_before P Q xs)"

section \<open>Sample collaborators and inputs\<close>

text \<open>
  A stand-in for the missing classes, with integers for numbers.  Its query model is
  the SQL text it holds and the scoped variables; \<^verbatim>\<open>render\<close> replaces the tokens and
  keeps the replaced text in the object, \<^verbatim>\<open>expend_macros\<close> expands the macros of the
  text the object holds.
\<close>

type_synonym sample_model = "string \<times> (string \<times> int variable) list"

text \<open>
  The stand-in knows one macro: \<^verbatim>\<open>$__timeFilter(column)\<close> becomes
  \<^verbatim>\<open>column BETWEEN from AND to\<close>.  The counter is the number of characters of an
  expanded macro call still to be skipped.
\<close>

fun expand_from :: "string \<Rightarrow> string \<Rightarrow> nat \<Rightarrow> string \<Rightarrow> string" where
  "expand_from lo hi k [] = []"
| "expand_from lo hi (Suc k) (c # cs) = expand_from lo hi k cs"
| "expand_from lo hi 0 (c # cs) =
     (if take 14 (c # cs) = ''$__timeFilter('' then
        (case text_until '')'' (drop 14 (c # cs)) of
           None \<Rightarrow> c # expand_from lo hi 0 cs
         | Some column \<Rightarrow>
             column @ '' BETWEEN '' @ lo @ '' AND '' @ hi
               @ expand_from lo hi (length column + 14) cs)
      else c # expand_from lo hi 0 cs)"

definition sample_collaborators :: "(sample_model, int, string, string) collaborators" where
  "sample_collaborators =
     \<lparr>new_BigQueryQuery = (\<lambda>target vars. (rawSql target, vars)),
      render = (\<lambda>qm fmt. (interpolate dec_int fmt (fst qm) (snd qm),
                             (interpolate dec_int fmt (fst qm) (snd qm), snd qm))),
      expend_macros = (\<lambda>qm options.
        (expand_from (dec_int (range_from options)) (dec_int (range_to options)) 0 (fst qm),
         qm)),
      qm_quoteLiteral = quoteLiteral dec_int,
      parseDataQuery = (\<lambda>response. response),
      templateSrv_replace = (\<lambda>text vars fmt. interpolate dec_int fmt text vars),
      transformAnnotationResponse = (\<lambda>options data. data),
      number_text = dec_int\<rparr>"

text \<open>Two executors: one that always answers, one that is always down.\<close>

definition always_ok :: "(sample_model, string, string) backend" where
  "always_ok trace req = Inr ''rows''"

definition always_down :: "(sample_model, string, string) backend" where
  "always_down trace req = Inl ''503''"

definition sample_datasource :: "sample_model datasource" where
  "sample_datasource =
     \<lparr>ds_id = 7, ds_url = ''/proxy/7'', baseUrl = ''/bigquery/'',
      projectName = ''proj'', queryModel = ([], [])\<rparr>"

definition var_v :: "int variable" where
  "var_v = \<lparr>var_name = ''v'', current = JArray [JNumber 1, JNumber 2, JNumber 3],
            multi = True, includeAll = False\<rparr>"

definition var_names :: "int variable" where
  "var_names = \<lparr>var_name = ''names'',
                current = JArray [JString ''a'', JString [CHR ''o'', CHR 0x27, CHR ''c'']],
                multi = False, includeAll = False\<rparr>"

definition var_null :: "int variable" where
  "var_null = \<lparr>var_name = ''n'', current = JNull, multi = True, includeAll = False\<rparr>"

definition var_flag :: "int variable" where
  "var_flag = \<lparr>var_name = ''f'', current = JBool True, multi = False, includeAll = True\<rparr>"

definition var_abc :: "int variable" where
  "var_abc = \<lparr>var_name = ''v'', current = JString ''abc'',
              multi = False, includeAll = False\<rparr>"

definition target_A :: target where
  "target_A = \<lparr>refId = ''A'', rawSql = ''SELECT a WHERE $__timeFilter(t) AND a IN (${v})'', format = ''table'',
               hide = None\<rparr>"

definition target_B :: target where
  "target_B = \<lparr>refId = ''B'', rawSql = ''SELECT b'', format = ''time_series'',
               hide = Some False\<rparr>"

definition target_H :: target where
  "target_H = \<lparr>refId = ''H'', rawSql = ''SELECT h'', format = ''table'',
               hide = Some True\<rparr>"

definition sample_options :: "target list \<Rightarrow> int query_options" where
  "sample_options ts =
     \<lparr>targets = ts, range_from = 0, range_to = 1000, intervalMs = 60000,
      maxDataPoints = 100, scopedVars = [(''v'', var_v)]\<rparr>"

definition sample_annotation :: "string option \<Rightarrow> int annotation_options" where
  "sample_annotation rawQuery =
     \<lparr>annotation_name = ''deploys'', annotation_rawQuery = rawQuery,
      annotation_from = 0, annotation_to = 1000,
      annotation_scopedVars = [(''v'', var_v)]\<rparr>"

definition queries_request :: "string \<Rightarrow> request" where
  "queries_request q =
     \<lparr>req_url = ''/proxy/7/bigquery/v2/projects/proj/queries'', req_method = POST,
      req_data = QueryData q False\<rparr>"

section \<open>Properties of interpolateVariable\<close>

text \<open>
  C3, as the code has it.  A variable flagged \<^verbatim>\<open>multi\<close> or \<^verbatim>\<open>includeAll\<close>, or one whose
  value is a list, is substituted by its elements, each quoted by \<^verbatim>\<open>quoteLiteral\<close>,
  joined with a comma and without brackets, when its value is a string, a number or a
  list; the elements of a scalar are the scalar alone.  When its value is \<^verbatim>\<open>null\<close>,
  \<^verbatim>\<open>undefined\<close> or a boolean, it is substituted by the empty string and nothing is
  quoted.  For a list and for a string the code calls whatever \<^verbatim>\<open>quoteLiteral\<close> the
  query model has; a number it returns without calling it, which is the quoted number
  when \<^verbatim>\<open>quoteLiteral\<close> leaves numbers as they are, as the spec has it.
\<close>

theorem interpolateVariable_quotes_and_joins:
  assumes "multi variable \<or> includeAll variable \<or> is_JArray val"
    and "\<forall>n. ql (JNumber n) = nt n"
  shows "js_text nt (interpolateVariable ql val variable) =
           (if is_JString val \<or> is_JNumber val \<or> is_JArray val
            then array_join '','' (map ql (elements val))
            else [])"
proof (cases val)
  case (JArray vs)
  then show ?thesis by (simp add: interpolateVariable_def)
next
  case (JString s)
  with assms(1) show ?thesis by (auto simp add: interpolateVariable_def)
next
  case (JNumber n)
  with assms(2) show ?thesis by (simp add: interpolateVariable_def)
qed (simp_all add: interpolateVariable_def)

text \<open>
  A list of numbers under \<^verbatim>\<open>multi\<close>, which gives the spec's \<^verbatim>\<open>IN (1,2,3)\<close>; a list of
  strings with neither flag set, where the quotes and the escaping show; and \<^verbatim>\<open>null\<close>
  under \<^verbatim>\<open>multi\<close>, which gives the empty string.
\<close>

theorem interpolateVariable_quotes_and_joins_witness:
  "(multi var_v \<or> includeAll var_v \<or> is_JArray (current var_v))
   \<and> js_text dec_int (interpolateVariable (quoteLiteral dec_int) (current var_v) var_v) = ''1,2,3''
   \<and> interpolate dec_int (interpolateVariable (quoteLiteral dec_int)) ''IN (${v})'' [(''v'', var_v)]
       = ''IN (1,2,3)''
   \<and> (multi var_names \<or> includeAll var_names \<or> is_JArray (current var_names))
   \<and> js_text dec_int
         (interpolateVariable (quoteLiteral dec_int) (current var_names) var_names)
       = [CHR 0x27, CHR ''a'', CHR 0x27, CHR '','',
          CHR 0x27, CHR ''o'', CHR 0x27, CHR 0x27, CHR ''c'', CHR 0x27]
   \<and> (multi var_null \<or> includeAll var_null \<or> is_JArray (current var_null))
   \<and> js_text dec_int (interpolateVariable (quoteLiteral dec_int) (current var_null) var_null)
       = []"
proof -
  have numbers: "\<forall>n. quoteLiteral dec_int (JNumber n) = dec_int n"
    by simp
  have flag: "multi var_v \<or> includeAll var_v \<or> is_JArray (current var_v)"
    by (simp add: var_v_def)
  have joined: "(if is_JString (current var_v) \<or> is_JNumber (current var_v)
                     \<or> is_JArray (current var_v)
                 then array_join '','' (map (quoteLiteral dec_int) (elements (current var_v)))
                 else []) = ''1,2,3''"
    by code_simp
  have substituted:
    "js_text dec_int (interpolateVariable (quoteLiteral dec_int) (current var_v) var_v)
       = ''1,2,3''"
    using interpolateVariable_quotes_and_joins [OF flag numbers] joined by simp
  have token: "interpolate dec_int (interpolateVariable (quoteLiteral dec_int)) ''IN (${v})''
                 [(''v'', var_v)]
               = ''IN ('' @ js_text dec_int
                   (interpolateVariable (quoteLiteral dec_int) (current var_v) var_v) @ '')''"
    by code_simp
  have flag_names: "multi var_names \<or> includeAll var_names \<or> is_JArray (current var_names)"
    by (simp add: var_names_def)
  have joined_names:
    "(if is_JString (current var_names) \<or> is_JNumber (current var_names)
          \<or> is_JArray (current var_names)
      then array_join '','' (map (quoteLiteral dec_int) (elements (current var_names)))
      else [])
     = [CHR 0x27, CHR ''a'', CHR 0x27, CHR '','',
        CHR 0x27, CHR ''o'', CHR 0x27, CHR 0x27, CHR ''c'', CHR 0x27]"
    by code_simp
  have substituted_names:
    "js_text dec_int
       (interpolateVariable (quoteLiteral dec_int) (current var_names) var_names)
     = [CHR 0x27, CHR ''a'', CHR 0x27, CHR '','',
        CHR 0x27, CHR ''o'', CHR 0x27, CHR 0x27, CHR ''c'', CHR 0x27]"
    using interpolateVariable_quotes_and_joins [OF flag_names numbers] joined_names by simp
  have flag_null: "multi var_null \<or> includeAll var_null \<or> is_JArray (current var_null)"
    by (simp add: var_null_def)
  have joined_null:
    "(if is_JString (current var_null) \<or> is_JNumber (current var_null)
          \<or> is_JArray (current var_null)
      then array_join '','' (map (quoteLiteral dec_int) (elements (current var_null)))
      else []) = []"
    by (simp add: var_null_def)
  have substituted_null:
    "js_text dec_int (interpolateVariable (quoteLiteral dec_int) (current var_null) var_null)
       = []"
    using interpolateVariable_quotes_and_joins [OF flag_null numbers] joined_null by simp
  show ?thesis
    using flag substituted token flag_names substituted_names flag_null substituted_null
    by simp
qed

text \<open>
  C3, as the spec has it, fails.  The variable is \<^verbatim>\<open>multi\<close> and its value is \<^verbatim>\<open>null\<close>:
  quoting the value gives \<^verbatim>\<open>NULL\<close>, and the code substitutes the empty string.  The
  same with a boolean under \<^verbatim>\<open>includeAll\<close>: quoting gives \<^verbatim>\<open>true\<close>, the code the empty
  string.
\<close>

theorem interpolateVariable_null_not_quoted_counterexample:
  "multi var_null
   \<and> array_join '','' (map (quoteLiteral dec_int) (elements (current var_null))) = ''NULL''
   \<and> js_text dec_int (interpolateVariable (quoteLiteral dec_int) (current var_null) var_null)
       = []
   \<and> includeAll var_flag
   \<and> array_join '','' (map (quoteLiteral dec_int) (elements (current var_flag))) = ''true''
   \<and> js_text dec_int (interpolateVariable (quoteLiteral dec_int) (current var_flag) var_flag)
       = []"
  by code_simp

text \<open>
  C4.  A string value of a variable that is neither \<^verbatim>\<open>multi\<close> nor \<^verbatim>\<open>includeAll\<close> is
  substituted as it is: no quote is added and nothing is escaped, whatever
  \<^verbatim>\<open>quoteLiteral\<close> does.
\<close>

theorem interpolateVariable_plain_string_unchanged:
  assumes "\<not> multi variable" and "\<not> includeAll variable"
  shows "interpolateVariable ql (JString s) variable = JString s
         \<and> js_text nt (interpolateVariable ql (JString s) variable) = s"
  using assms by (simp add: interpolateVariable_def)

theorem interpolateVariable_plain_string_unchanged_witness:
  "\<not> multi var_abc \<and> \<not> includeAll var_abc
   \<and> interpolateVariable (quoteLiteral dec_int) (JString ''abc'') var_abc = JString ''abc''
   \<and> js_text dec_int (interpolateVariable (quoteLiteral dec_int) (JString ''abc'') var_abc) = ''abc''"
proof -
  have m: "\<not> multi var_abc" and a: "\<not> includeAll var_abc"
    by (simp_all add: var_abc_def)
  show ?thesis
    using m a interpolateVariable_plain_string_unchanged
                [OF m a, of "quoteLiteral dec_int" "''abc''" dec_int]
    by simp
qed

text \<open>
  C8.  A number is substituted as it is, unquoted, for every combination of the
  \<^verbatim>\<open>multi\<close> and \<^verbatim>\<open>includeAll\<close> flags: \<^verbatim>\<open>quoteLiteral\<close> is not called.
\<close>

theorem interpolateVariable_number_unquoted:
  "interpolateVariable ql (JNumber n) variable = JNumber n
   \<and> js_text nt (interpolateVariable ql (JNumber n) variable) = nt n"
  by (simp add: interpolateVariable_def)

text \<open>
  C9.  For \<^verbatim>\<open>null\<close> and for \<^verbatim>\<open>undefined\<close> the result is the empty string: the value is
  neither a string nor a number, mapping over it gives the empty list, and joining the
  empty list gives the empty string.  It is not the \<^verbatim>\<open>NULL\<close> literal and not an error.
\<close>

theorem interpolateVariable_null_is_empty_string:
  "interpolateVariable ql JNull variable = JString []
   \<and> interpolateVariable ql JUndefined variable = JString []
   \<and> lodash_map ql JNull = [] \<and> lodash_map ql JUndefined = []
   \<and> js_text nt (interpolateVariable ql JNull variable) \<noteq> ''NULL''"
  by (simp add: interpolateVariable_def)

section \<open>The transport wrapper\<close>

text \<open>
  \<^verbatim>\<open>doQueryRequest\<close> and \<^verbatim>\<open>doRequest\<close> wrap the executor: a request that failed is
  issued again while \<^verbatim>\<open>maxRetries\<close> is positive.  What a call of \<^verbatim>\<open>doQueryRequest\<close> does,
  in full: it issues the same request \<open>k + 1\<close> times for some \<open>k\<close> up to
  \<^verbatim>\<open>maxRetries\<close>; the first \<open>k\<close> attempts failed; the outcome of the last attempt is
  the outcome of the call; and an error is the outcome only when the retries are used
  up.
\<close>

lemma doQueryRequest_attempts:
  fixes be :: "('qm, 'e, 'r) backend"
  defines "rq u url q \<equiv>
    \<lparr>req_url = u @ url, req_method = POST, req_data = QueryData q False\<rparr>"
  shows "\<exists>k\<le>nat m.
           doQueryRequest be u url q m tr =
             (be (tr @ replicate k (DatasourceRequest (rq u url q))) (rq u url q),
              tr @ replicate (Suc k) (DatasourceRequest (rq u url q)))
         \<and> (\<forall>j<k. isl (be (tr @ replicate j (DatasourceRequest (rq u url q))) (rq u url q)))
         \<and> (isl (be (tr @ replicate k (DatasourceRequest (rq u url q))) (rq u url q))
              \<longrightarrow> k = nat m)"
proof (induction "nat m" arbitrary: m tr)
  case 0
  then have m: "\<not> m > 0" by simp
  have "doQueryRequest be u url q m tr =
          (be tr (rq u url q), tr @ [DatasourceRequest (rq u url q)])"
    using m
    by (subst doQueryRequest.simps)
       (simp add: datasourceRequest_def rq_def split: sum.splits)
  then show ?case using 0 by (intro exI[of _ 0]) simp
next
  case (Suc n)
  let ?req = "rq u url q"
  let ?ev = "DatasourceRequest ?req"
  show ?case
  proof (cases "be tr ?req")
    case (Inr r)
    then have "doQueryRequest be u url q m tr = (be tr ?req, tr @ [?ev])"
      by (subst doQueryRequest.simps) (simp add: datasourceRequest_def rq_def)
    then show ?thesis using Inr by (intro exI[of _ 0]) simp
  next
    case (Inl e)
    from Suc.hyps(2) have m: "m > 0" and n: "n = nat (m - 1)" by simp_all
    have step: "doQueryRequest be u url q m tr =
                  doQueryRequest be u url q (m - 1) (tr @ [?ev])"
      using m Inl by (subst doQueryRequest.simps) (simp add: datasourceRequest_def rq_def)
    from Suc.hyps(1)[OF n, of "tr @ [?ev]"] obtain k where k: "k \<le> nat (m - 1)"
      "doQueryRequest be u url q (m - 1) (tr @ [?ev]) =
         (be ((tr @ [?ev]) @ replicate k ?ev) ?req, (tr @ [?ev]) @ replicate (Suc k) ?ev)"
      "\<forall>j<k. isl (be ((tr @ [?ev]) @ replicate j ?ev) ?req)"
      "isl (be ((tr @ [?ev]) @ replicate k ?ev) ?req) \<longrightarrow> k = nat (m - 1)"
      by blast
    have earlier: "\<forall>j<Suc k. isl (be (tr @ replicate j ?ev) ?req)"
    proof (intro allI impI)
      fix j assume "j < Suc k"
      then show "isl (be (tr @ replicate j ?ev) ?req)"
        using k(3) Inl by (cases j) auto
    qed
    show ?thesis
      using k(1,2,4) earlier m unfolding step
      by (intro exI[of _ "Suc k"]) auto
  qed
qed

text \<open>The same for \<^verbatim>\<open>doRequest\<close>.\<close>

lemma doRequest_attempts:
  fixes be :: "('qm, 'e, 'r) backend"
  defines "rq u url \<equiv> \<lparr>req_url = u @ url, req_method = GET, req_data = NoData\<rparr>"
  shows "\<exists>k\<le>nat m.
           doRequest be u url m tr =
             (be (tr @ replicate k (DatasourceRequest (rq u url))) (rq u url),
              tr @ replicate (Suc k) (DatasourceRequest (rq u url)))
         \<and> (\<forall>j<k. isl (be (tr @ replicate j (DatasourceRequest (rq u url))) (rq u url)))
         \<and> (isl (be (tr @ replicate k (DatasourceRequest (rq u url))) (rq u url))
              \<longrightarrow> k = nat m)"
proof (induction "nat m" arbitrary: m tr)
  case 0
  then have m: "\<not> m > 0" by simp
  have "doRequest be u url m tr = (be tr (rq u url), tr @ [DatasourceRequest (rq u url)])"
    using m
    by (subst doRequest.simps) (simp add: datasourceRequest_def rq_def split: sum.splits)
  then show ?case using 0 by (intro exI[of _ 0]) simp
next
  case (Suc n)
  let ?req = "rq u url"
  let ?ev = "DatasourceRequest ?req"
  show ?case
  proof (cases "be tr ?req")
    case (Inr r)
    then have "doRequest be u url m tr = (be tr ?req, tr @ [?ev])"
      by (subst doRequest.simps) (simp add: datasourceRequest_def rq_def)
    then show ?thesis using Inr by (intro exI[of _ 0]) simp
  next
    case (Inl e)
    from Suc.hyps(2) have m: "m > 0" and n: "n = nat (m - 1)" by simp_all
    have step: "doRequest be u url m tr = doRequest be u url (m - 1) (tr @ [?ev])"
      using m Inl by (subst doRequest.simps) (simp add: datasourceRequest_def rq_def)
    from Suc.hyps(1)[OF n, of "tr @ [?ev]"] obtain k where k: "k \<le> nat (m - 1)"
      "doRequest be u url (m - 1) (tr @ [?ev]) =
         (be ((tr @ [?ev]) @ replicate k ?ev) ?req, (tr @ [?ev]) @ replicate (Suc k) ?ev)"
      "\<forall>j<k. isl (be ((tr @ [?ev]) @ replicate j ?ev) ?req)"
      "isl (be ((tr @ [?ev]) @ replicate k ?ev) ?req) \<longrightarrow> k = nat (m - 1)"
      by blast
    have earlier: "\<forall>j<Suc k. isl (be (tr @ replicate j ?ev) ?req)"
    proof (intro allI impI)
      fix j assume "j < Suc k"
      then show "isl (be (tr @ replicate j ?ev) ?req)"
        using k(3) Inl by (cases j) auto
    qed
    show ?thesis
      using k(1,2,4) earlier m unfolding step
      by (intro exI[of _ "Suc k"]) auto
  qed
qed

section \<open>Properties of query\<close>

text \<open>The map over the visible targets: its payloads, its trace, the query model it leaves.\<close>

lemma map_targets_refIds:
  "map p_refId (fst (map_targets C options ts this trace)) = map refId ts"
  by (induction ts arbitrary: this trace) (simp_all add: Let_def split_beta)

lemma map_targets_length:
  "length (fst (map_targets C options ts this trace)) = length ts"
  by (induction ts arbitrary: this trace) (simp_all add: Let_def split_beta)

lemma map_targets_trace:
  "snd (snd (map_targets C options ts this trace)) =
     trace @ map (\<lambda>target. Render (new_BigQueryQuery C target (scopedVars options))) ts"
  by (induction ts arbitrary: this trace) (simp_all add: Let_def split_beta)

lemma map_targets_queryModel:
  "ts \<noteq> [] \<Longrightarrow>
   fst (snd (map_targets C options ts this trace)) =
     this\<lparr>queryModel :=
       snd (render C (new_BigQueryQuery C (last ts) (scopedVars options))
              (interpolateVariable (qm_quoteLiteral C)))\<rparr>"
proof (induction ts arbitrary: this trace)
  case Nil
  then show ?case by simp
next
  case (Cons t ts)
  show ?case
  proof (cases "ts = []")
    case True
    then show ?thesis by (simp add: Let_def split_beta)
  next
    case False
    then show ?thesis using Cons.IH[OF False]
      by (simp add: Let_def split_beta)
  qed
qed

lemma query_empty_batch:
  assumes "visible (targets options) = []"
  shows "query C be this options trace = (Inr EmptyData, this, trace)"
  using assms by (simp add: query_def)

text \<open>
  The trace of \<^verbatim>\<open>query\<close> on a batch that is not empty: one \<^verbatim>\<open>render\<close> for each visible
  target, in order, then one \<^verbatim>\<open>expend_macros\<close> on the query model of the last visible
  target, then the request with the expanded text, once or twice.
\<close>

lemma query_trace:
  fixes C :: "('qm, 'n, 'r, 'd) collaborators" and be :: "('qm, 'e, 'r) backend"
  defines "qmL ts options \<equiv>
    snd (render C (new_BigQueryQuery C (last ts) (scopedVars options))
           (interpolateVariable (qm_quoteLiteral C)))"
  assumes batch: "visible (targets options) \<noteq> []"
  shows "\<exists>k. (k = 1 \<or> k = 2) \<and>
     snd (snd (query C be this options trace)) =
       trace
       @ map (\<lambda>target. Render (new_BigQueryQuery C target (scopedVars options)))
           (visible (targets options))
       @ ExpendMacros (qmL (visible (targets options)) options)
       # replicate k (DatasourceRequest
           \<lparr>req_url = ds_url this @ baseUrl this @ ''v2/projects/'' @ projectName this
                        @ ''/queries'',
            req_method = POST,
            req_data = QueryData
              (fst (expend_macros C (qmL (visible (targets options)) options) options))
              False\<rparr>)"
proof -
  let ?ts = "visible (targets options)"
  let ?r = "map_targets C options ?ts this trace"
  let ?this1 = "fst (snd ?r)"
  let ?trace1 = "snd (snd ?r)"
  let ?q = "fst (expend_macros C (queryModel ?this1) options)"
  let ?trace2 = "?trace1 @ [ExpendMacros (queryModel ?this1)]"
  let ?url = "baseUrl ?this1 @ ''v2/projects/'' @ projectName ?this1 @ ''/queries''"
  have len: "length (fst ?r) \<noteq> 0"
    using batch by (simp add: map_targets_length)
  have this1: "?this1 = this\<lparr>queryModel := qmL ?ts options\<rparr>"
    unfolding qmL_def by (rule map_targets_queryModel[OF batch])
  have q: "snd (snd (query C be this options trace)) =
             snd (doQueryRequest be (ds_url ?this1) ?url ?q 1 ?trace2)"
    using len by (simp add: query_def Let_def split_beta split: sum.splits)
  from doQueryRequest_attempts[of 1 be "ds_url ?this1" ?url ?q ?trace2]
  obtain k where k: "k \<le> nat 1"
    "snd (doQueryRequest be (ds_url ?this1) ?url ?q 1 ?trace2) =
       ?trace2 @ replicate (Suc k) (DatasourceRequest
          \<lparr>req_url = ds_url ?this1 @ ?url, req_method = POST, req_data = QueryData ?q False\<rparr>)"
    by force
  from k(1) have "Suc k = 1 \<or> Suc k = 2" by auto
  moreover have "snd (snd (query C be this options trace)) =
       trace
       @ map (\<lambda>target. Render (new_BigQueryQuery C target (scopedVars options))) ?ts
       @ ExpendMacros (qmL ?ts options)
       # replicate (Suc k) (DatasourceRequest
           \<lparr>req_url = ds_url this @ baseUrl this @ ''v2/projects/'' @ projectName this
                        @ ''/queries'',
            req_method = POST,
            req_data = QueryData (fst (expend_macros C (qmL ?ts options) options)) False\<rparr>)"
    unfolding q k(2) by (simp add: this1 map_targets_trace del: replicate_Suc)
  ultimately show ?thesis by blast
qed

text \<open>
  C1, as the code has it.  For a batch with one visible target, \<^verbatim>\<open>query\<close> first renders
  the target's query model, which interpolates the variables, and only then expands the
  macros: \<^verbatim>\<open>expend_macros\<close> is called on the query model as \<^verbatim>\<open>render\<close> left it, and the
  SQL the executor gets is what \<^verbatim>\<open>expend_macros\<close> returned.  Interpolation comes before
  macro expansion, never after it.
\<close>

theorem query_interpolates_before_expanding:
  fixes C :: "('qm, 'n, 'r, 'd) collaborators" and be :: "('qm, 'e, 'r) backend"
  defines "qm0 target options \<equiv> new_BigQueryQuery C target (scopedVars options)"
  defines "qm1 target options \<equiv>
    snd (render C (qm0 target options) (interpolateVariable (qm_quoteLiteral C)))"
  assumes single: "visible (targets options) = [target]"
  shows "(\<exists>k. (k = 1 \<or> k = 2) \<and>
           snd (snd (query C be this options trace)) =
             trace
             @ [Render (qm0 target options), ExpendMacros (qm1 target options)]
             @ replicate k (DatasourceRequest
                 \<lparr>req_url = ds_url this @ baseUrl this @ ''v2/projects/'' @ projectName this
                              @ ''/queries'',
                  req_method = POST,
                  req_data = QueryData (fst (expend_macros C (qm1 target options) options))
                               False\<rparr>))
         \<and> occurs_before is_Render is_ExpendMacros
              (drop (length trace) (snd (snd (query C be this options trace))))
         \<and> \<not> occurs_before is_ExpendMacros is_Render
              (drop (length trace) (snd (snd (query C be this options trace))))"
proof -
  have batch: "visible (targets options) \<noteq> []"
    using single by simp
  from query_trace[OF batch, of C be this trace] obtain k where
    k: "k = 1 \<or> k = 2" and
    tr: "snd (snd (query C be this options trace)) =
           trace
           @ [Render (qm0 target options), ExpendMacros (qm1 target options)]
           @ replicate k (DatasourceRequest
               \<lparr>req_url = ds_url this @ baseUrl this @ ''v2/projects/'' @ projectName this
                            @ ''/queries'',
                req_method = POST,
                req_data = QueryData (fst (expend_macros C (qm1 target options) options))
                             False\<rparr>)"
    unfolding single qm0_def qm1_def by auto
  from tr have "occurs_before is_Render is_ExpendMacros
                  (drop (length trace) (snd (snd (query C be this options trace))))"
    and "\<not> occurs_before is_ExpendMacros is_Render
                  (drop (length trace) (snd (snd (query C be this options trace))))"
    by simp_all
  with k tr show ?thesis by blast
qed

text \<open>
  The batch of a hidden target and target A: A alone is visible, and its model is
  rendered before its macros are expanded.
\<close>

theorem query_interpolates_before_expanding_witness:
  "visible (targets (sample_options [target_H, target_A])) = [target_A]
   \<and> occurs_before is_Render is_ExpendMacros
        (snd (snd (query sample_collaborators always_ok sample_datasource
                     (sample_options [target_H, target_A]) [])))"
proof -
  have single: "visible (targets (sample_options [target_H, target_A])) = [target_A]"
    by (simp add: visible_def sample_options_def target_H_def target_A_def)
  note t = query_interpolates_before_expanding
             [OF single, of sample_collaborators always_ok sample_datasource "[]"]
  from t[THEN conjunct2, THEN conjunct1]
  have "occurs_before is_Render is_ExpendMacros
          (snd (snd (query sample_collaborators always_ok sample_datasource
                       (sample_options [target_H, target_A]) [])))"
    by simp
  with single show ?thesis by (rule conjI)
qed

text \<open>
  C1, as the spec has it, fails.  Target A alone, its SQL with a macro call and a
  variable token.  The first event is the \<^verbatim>\<open>render\<close> of a query model whose SQL still has
  the macro call; the macro expansion comes second, on SQL whose token is already
  replaced; the executor gets the outcome of the expansion.
\<close>

theorem macros_not_expanded_before_interpolation_counterexample:
  "snd (snd (query sample_collaborators always_ok sample_datasource
               (sample_options [target_A]) [])) =
     [Render (''SELECT a WHERE $__timeFilter(t) AND a IN (${v})'', [(''v'', var_v)]),
      ExpendMacros (''SELECT a WHERE $__timeFilter(t) AND a IN (1,2,3)'', [(''v'', var_v)]),
      DatasourceRequest
        (queries_request ''SELECT a WHERE t BETWEEN 0 AND 1000 AND a IN (1,2,3)'')]
   \<and> \<not> occurs_before is_ExpendMacros is_Render
          (snd (snd (query sample_collaborators always_ok sample_datasource
                       (sample_options [target_A]) [])))"
  by code_simp

text \<open>
  C2 at a batch of two visible targets, A and B, with an executor that answers: two
  payloads are built, and the executor gets one request, with the SQL of B alone.  The
  query of A is never executed.
\<close>

theorem query_two_targets_one_request:
  "map p_refId
     (fst (map_targets sample_collaborators (sample_options [target_A, target_B])
             (visible (targets (sample_options [target_A, target_B])))
             sample_datasource []))
     = [''A'', ''B'']
   \<and> filter is_DatasourceRequest
       (snd (snd (query sample_collaborators always_ok sample_datasource
                    (sample_options [target_A, target_B]) [])))
     = [DatasourceRequest (queries_request ''SELECT b'')]"
  by code_simp

text \<open>
  C6.  The batch is the targets whose \<^verbatim>\<open>hide\<close> is not \<^verbatim>\<open>true\<close>: a hidden target has no
  payload, no query model and no \<^verbatim>\<open>render\<close>, and the only SQL sent is that of the last
  target of the batch.  When the batch is empty (no targets, or every target hidden),
  \<^verbatim>\<open>query\<close> returns the empty result \<^verbatim>\<open>{data: []}\<close> at once: the trace is unchanged, so
  neither the executor nor any other collaborator was called.
\<close>

theorem query_skips_hidden_targets:
  fixes C :: "('qm, 'n, 'r, 'd) collaborators" and be :: "('qm, 'e, 'r) backend"
  defines "batch options \<equiv> visible (targets options)"
  defines "qmL options \<equiv>
    snd (render C (new_BigQueryQuery C (last (batch options)) (scopedVars options))
           (interpolateVariable (qm_quoteLiteral C)))"
  shows "(\<forall>t \<in> set (batch options). t \<in> set (targets options) \<and> hide t \<noteq> Some True)
       \<and> (\<forall>t \<in> set (targets options). hide t = Some True \<longrightarrow> t \<notin> set (batch options))
       \<and> map p_refId (fst (map_targets C options (batch options) this trace))
           = map refId (batch options)
       \<and> (batch options = [] \<longrightarrow>
            query C be this options trace = (Inr EmptyData, this, trace))
       \<and> (batch options \<noteq> [] \<longrightarrow>
            (\<exists>k. (k = 1 \<or> k = 2) \<and>
               snd (snd (query C be this options trace)) =
                 trace
                 @ map (\<lambda>target. Render (new_BigQueryQuery C target (scopedVars options)))
                     (batch options)
                 @ ExpendMacros (qmL options)
                 # replicate k (DatasourceRequest
                     \<lparr>req_url = ds_url this @ baseUrl this @ ''v2/projects/''
                                  @ projectName this @ ''/queries'',
                      req_method = POST,
                      req_data = QueryData (fst (expend_macros C (qmL options) options))
                                   False\<rparr>)))"
proof (intro conjI)
  show "\<forall>t \<in> set (batch options). t \<in> set (targets options) \<and> hide t \<noteq> Some True"
    by (simp add: batch_def visible_def)
  show "\<forall>t \<in> set (targets options). hide t = Some True \<longrightarrow> t \<notin> set (batch options)"
    by (simp add: batch_def visible_def)
  show "map p_refId (fst (map_targets C options (batch options) this trace))
          = map refId (batch options)"
    by (rule map_targets_refIds)
  show "batch options = [] \<longrightarrow>
          query C be this options trace = (Inr EmptyData, this, trace)"
    unfolding batch_def by (intro impI query_empty_batch)
  show "batch options \<noteq> [] \<longrightarrow>
            (\<exists>k. (k = 1 \<or> k = 2) \<and>
               snd (snd (query C be this options trace)) =
                 trace
                 @ map (\<lambda>target. Render (new_BigQueryQuery C target (scopedVars options)))
                     (batch options)
                 @ ExpendMacros (qmL options)
                 # replicate k (DatasourceRequest
                     \<lparr>req_url = ds_url this @ baseUrl this @ ''v2/projects/''
                                  @ projectName this @ ''/queries'',
                      req_method = POST,
                      req_data = QueryData (fst (expend_macros C (qmL options) options))
                                   False\<rparr>))"
    unfolding batch_def qmL_def by (intro impI query_trace)
qed

text \<open>
  A batch whose only target is hidden gives the empty result and an empty trace, with
  an executor that is down; of the targets A, H and B, the hidden H has no payload, and
  every request the executor gets carries the SQL of B.
\<close>

theorem query_skips_hidden_targets_witness:
  "visible (targets (sample_options [target_H])) = []
   \<and> query sample_collaborators always_down sample_datasource (sample_options [target_H]) []
       = (Inr EmptyData, sample_datasource, [])
   \<and> hide target_H = Some True
   \<and> target_H \<notin> set (visible (targets (sample_options [target_A, target_H, target_B])))
   \<and> map p_refId
       (fst (map_targets sample_collaborators (sample_options [target_A, target_H, target_B])
               (visible (targets (sample_options [target_A, target_H, target_B])))
               sample_datasource []))
       = map refId (visible (targets (sample_options [target_A, target_H, target_B])))
   \<and> visible (targets (sample_options [target_A, target_H, target_B])) \<noteq> []
   \<and> (\<exists>k. (k = 1 \<or> k = 2) \<and>
         filter is_DatasourceRequest
           (snd (snd (query sample_collaborators always_down sample_datasource
                        (sample_options [target_A, target_H, target_B]) [])))
         = replicate k (DatasourceRequest (queries_request ''SELECT b'')))"
proof -
  have empty: "visible (targets (sample_options [target_H])) = []"
    by (simp add: visible_def sample_options_def target_H_def)
  have hidden: "hide target_H = Some True"
    by (simp add: target_H_def)
  have member: "target_H \<in> set (targets (sample_options [target_A, target_H, target_B]))"
    by (simp add: sample_options_def)
  have batch: "visible (targets (sample_options [target_A, target_H, target_B]))
                 = [target_A, target_B]"
    by (simp add: visible_def sample_options_def target_H_def target_A_def target_B_def)
  then have nonempty: "visible (targets (sample_options [target_A, target_H, target_B])) \<noteq> []"
    by simp
  note h = query_skips_hidden_targets
             [of "sample_options [target_H]" sample_collaborators sample_datasource "[]"
                 always_down]
  note g = query_skips_hidden_targets
             [of "sample_options [target_A, target_H, target_B]" sample_collaborators
                 sample_datasource "[]" always_down]
  note h4 = h[THEN conjunct2, THEN conjunct2, THEN conjunct2, THEN conjunct1,
               rule_format, OF empty]
  note g2 = g[THEN conjunct2, THEN conjunct1, rule_format, OF member hidden]
  note g3 = g[THEN conjunct2, THEN conjunct2, THEN conjunct1]
  note g5 = g[THEN conjunct2, THEN conjunct2, THEN conjunct2, THEN conjunct2,
               rule_format, OF nonempty]
  have sent: "\<lparr>req_url = ds_url sample_datasource @ baseUrl sample_datasource @ ''v2/projects/''
                            @ projectName sample_datasource @ ''/queries'',
                req_method = POST,
                req_data = QueryData
                  (fst (expend_macros sample_collaborators
                     (snd (render sample_collaborators
                        (new_BigQueryQuery sample_collaborators
                           (last (visible (targets (sample_options [target_A, target_H, target_B]))))
                           (scopedVars (sample_options [target_A, target_H, target_B])))
                        (interpolateVariable (qm_quoteLiteral sample_collaborators))))
                     (sample_options [target_A, target_H, target_B])))
                  False\<rparr>
              = queries_request ''SELECT b''"
    by code_simp
  from g5 obtain k where k: "k = 1 \<or> k = 2" and
    tr: "snd (snd (query sample_collaborators always_down sample_datasource
                     (sample_options [target_A, target_H, target_B]) [])) =
          [] @ map (\<lambda>target. Render (new_BigQueryQuery sample_collaborators target
                     (scopedVars (sample_options [target_A, target_H, target_B]))))
                 (visible (targets (sample_options [target_A, target_H, target_B])))
          @ ExpendMacros
              (snd (render sample_collaborators
                      (new_BigQueryQuery sample_collaborators
                         (last (visible (targets (sample_options [target_A, target_H, target_B]))))
                         (scopedVars (sample_options [target_A, target_H, target_B])))
                      (interpolateVariable (qm_quoteLiteral sample_collaborators))))
          # replicate k (DatasourceRequest (queries_request ''SELECT b''))"
    unfolding sent by blast
  have "filter is_DatasourceRequest
           (snd (snd (query sample_collaborators always_down sample_datasource
                        (sample_options [target_A, target_H, target_B]) [])))
         = replicate k (DatasourceRequest (queries_request ''SELECT b''))"
    unfolding tr by (simp add: filter_map comp_def)
  with k have sent_only: "\<exists>k. (k = 1 \<or> k = 2) \<and>
         filter is_DatasourceRequest
           (snd (snd (query sample_collaborators always_down sample_datasource
                        (sample_options [target_A, target_H, target_B]) [])))
         = replicate k (DatasourceRequest (queries_request ''SELECT b''))"
    by blast
  show ?thesis
    by (intro conjI empty h4 hidden g2 g3 nonempty sent_only)
qed

section \<open>Properties of annotationQuery\<close>

text \<open>
  C10.  When the annotation has no raw query (it is missing, or the empty string),
  \<^verbatim>\<open>annotationQuery\<close> rejects with the message \<^verbatim>\<open>Query missing in annotation definition\<close>
  and the trace is unchanged: no request reached the executor.
\<close>

theorem annotationQuery_rejects_missing_query:
  assumes "annotation_rawQuery options = None \<or> annotation_rawQuery options = Some []"
  shows "annotationQuery C be this options trace =
           (Inl (Rejected ''Query missing in annotation definition''), trace)"
  using assms by (auto simp add: annotationQuery_def)

theorem annotationQuery_rejects_missing_query_witness:
  "(annotation_rawQuery (sample_annotation None) = None
      \<or> annotation_rawQuery (sample_annotation None) = Some [])
   \<and> annotationQuery sample_collaborators always_ok sample_datasource
        (sample_annotation None) [] =
       (Inl (Rejected ''Query missing in annotation definition''), [])
   \<and> annotationQuery sample_collaborators always_ok sample_datasource
        (sample_annotation (Some [])) [] =
       (Inl (Rejected ''Query missing in annotation definition''), [])"
proof -
  have absent: "annotation_rawQuery (sample_annotation None) = None
                  \<or> annotation_rawQuery (sample_annotation None) = Some []"
    by (simp add: sample_annotation_def)
  have empty: "annotation_rawQuery (sample_annotation (Some [])) = None
                 \<or> annotation_rawQuery (sample_annotation (Some [])) = Some []"
    by (simp add: sample_annotation_def)
  show ?thesis
    by (intro conjI absent
          annotationQuery_rejects_missing_query
            [OF absent, of sample_collaborators always_ok sample_datasource "[]"]
          annotationQuery_rejects_missing_query
            [OF empty, of sample_collaborators always_ok sample_datasource "[]"])
qed

section \<open>Errors of the executor\<close>

text \<open>
  \<^verbatim>\<open>query\<close> on a batch that is not empty, in terms of its one call of the transport
  wrapper \<^verbatim>\<open>doQueryRequest\<close>.
\<close>

lemma query_nonempty_batch:
  fixes C :: "('qm, 'n, 'r, 'd) collaborators" and be :: "('qm, 'e, 'r) backend"
  defines "qmL options \<equiv>
    snd (render C (new_BigQueryQuery C (last (visible (targets options))) (scopedVars options))
           (interpolateVariable (qm_quoteLiteral C)))"
  defines "sent this options trace \<equiv>
    doQueryRequest be (ds_url this)
      (baseUrl this @ ''v2/projects/'' @ projectName this @ ''/queries'')
      (fst (expend_macros C (qmL options) options)) 1
      (trace
       @ map (\<lambda>target. Render (new_BigQueryQuery C target (scopedVars options)))
           (visible (targets options))
       @ [ExpendMacros (qmL options)])"
  assumes batch: "visible (targets options) \<noteq> []"
  shows "query C be this options trace =
           (case fst (sent this options trace) of
              Inl error \<Rightarrow> Inl error
            | Inr response \<Rightarrow> Inr (Parsed (parseDataQuery C response)),
            this\<lparr>queryModel := snd (expend_macros C (qmL options) options)\<rparr>,
            snd (sent this options trace))"
proof -
  let ?r = "map_targets C options (visible (targets options)) this trace"
  have len: "length (fst ?r) \<noteq> 0"
    using batch by (simp add: map_targets_length)
  have this1: "fst (snd ?r) = this\<lparr>queryModel := qmL options\<rparr>"
    unfolding qmL_def by (rule map_targets_queryModel[OF batch])
  show ?thesis
    using len unfolding sent_def
    by (simp add: query_def Let_def split_beta this1 map_targets_trace split: sum.splits)
qed

text \<open>
  C5.  The pipeline never retries a failed executor call.  The executor of \<^verbatim>\<open>query\<close> is
  the transport wrapper \<^verbatim>\<open>doQueryRequest\<close>, whose retries are its own: \<^verbatim>\<open>query\<close> calls it
  once, an error it returns is the outcome of \<^verbatim>\<open>query\<close> as it is, and the trace that
  \<^verbatim>\<open>query\<close> leaves is the trace that this one call left, so nothing is issued after the
  failure.  The executor of \<^verbatim>\<open>annotationQuery\<close> is \<^verbatim>\<open>datasourceRequest\<close> itself: one
  request is issued, and an error of the executor is the rejection, as it is.
\<close>

theorem pipeline_passes_executor_error_through:
  fixes C :: "('qm, 'n, 'r, 'd) collaborators" and be :: "('qm, 'e, 'r) backend"
  defines "qmL options \<equiv>
    snd (render C (new_BigQueryQuery C (last (visible (targets options))) (scopedVars options))
           (interpolateVariable (qm_quoteLiteral C)))"
  defines "sent this options trace \<equiv>
    doQueryRequest be (ds_url this)
      (baseUrl this @ ''v2/projects/'' @ projectName this @ ''/queries'')
      (fst (expend_macros C (qmL options) options)) 1
      (trace
       @ map (\<lambda>target. Render (new_BigQueryQuery C target (scopedVars options)))
           (visible (targets options))
       @ [ExpendMacros (qmL options)])"
  defines "asked this annotation rawQuery \<equiv>
    \<lparr>req_url = ''/api/tsdb/query'', req_method = POST,
     req_data = TsdbData (number_text C (annotation_from annotation))
                         (number_text C (annotation_to annotation))
                  [\<lparr>q_refId = annotation_name annotation,
                    q_datasourceId = ds_id this,
                    q_rawSql = templateSrv_replace C rawQuery
                                 (annotation_scopedVars annotation)
                                 (interpolateVariable (qm_quoteLiteral C)),
                    q_format = ''table''\<rparr>]\<rparr>"
  shows "(visible (targets options) \<noteq> [] \<longrightarrow>
            snd (snd (query C be this options trace)) = snd (sent this options trace)
            \<and> (\<forall>error. fst (sent this options trace) = Inl error \<longrightarrow>
                   fst (query C be this options trace) = Inl error))
       \<and> (annotation_rawQuery annotation = Some rawQuery \<and> rawQuery \<noteq> [] \<longrightarrow>
            snd (annotationQuery C be this annotation trace)
              = trace @ [DatasourceRequest (asked this annotation rawQuery)]
            \<and> (\<forall>error. be trace (asked this annotation rawQuery) = Inl error \<longrightarrow>
                   fst (annotationQuery C be this annotation trace)
                     = Inl (ExecutorError error)))"
proof (intro conjI impI allI)
  assume batch: "visible (targets options) \<noteq> []"
  note q = query_nonempty_batch[OF batch, of C be this trace]
  show "snd (snd (query C be this options trace)) = snd (sent this options trace)"
    unfolding sent_def qmL_def q by simp
  fix error
  assume "fst (sent this options trace) = Inl error"
  then show "fst (query C be this options trace) = Inl error"
    unfolding sent_def qmL_def q by simp
next
  assume raw: "annotation_rawQuery annotation = Some rawQuery \<and> rawQuery \<noteq> []"
  then show "snd (annotationQuery C be this annotation trace)
               = trace @ [DatasourceRequest (asked this annotation rawQuery)]"
    by (simp add: annotationQuery_def asked_def datasourceRequest_def Let_def
             split: sum.splits)
  fix error
  assume "be trace (asked this annotation rawQuery) = Inl error"
  with raw show "fst (annotationQuery C be this annotation trace) = Inl (ExecutorError error)"
    by (simp add: annotationQuery_def asked_def datasourceRequest_def Let_def)
qed

text \<open>
  With an executor that is always down: the wrapper's call for target A ends in the
  error \<^verbatim>\<open>503\<close>, and so does \<^verbatim>\<open>query\<close>; the annotation query issues its one request and
  is rejected with the same error.
\<close>

theorem pipeline_passes_executor_error_through_witness:
  "visible (targets (sample_options [target_A])) \<noteq> []
   \<and> fst (query sample_collaborators always_down sample_datasource
            (sample_options [target_A]) []) = Inl ''503''
   \<and> annotation_rawQuery (sample_annotation (Some ''SELECT t'')) = Some ''SELECT t''
   \<and> annotationQuery sample_collaborators always_down sample_datasource
        (sample_annotation (Some ''SELECT t'')) []
       = (Inl (ExecutorError ''503''),
          [DatasourceRequest
             \<lparr>req_url = ''/api/tsdb/query'', req_method = POST,
              req_data = TsdbData ''0'' ''1000''
                [\<lparr>q_refId = ''deploys'', q_datasourceId = 7, q_rawSql = ''SELECT t'',
                  q_format = ''table''\<rparr>]\<rparr>])"
proof -
  let ?sent = "doQueryRequest always_down (ds_url sample_datasource)
      (baseUrl sample_datasource @ ''v2/projects/'' @ projectName sample_datasource
         @ ''/queries'')
      (fst (expend_macros sample_collaborators
              (snd (render sample_collaborators
                      (new_BigQueryQuery sample_collaborators
                         (last (visible (targets (sample_options [target_A]))))
                         (scopedVars (sample_options [target_A])))
                      (interpolateVariable (qm_quoteLiteral sample_collaborators))))
              (sample_options [target_A]))) 1
      ([] @ map (\<lambda>target. Render (new_BigQueryQuery sample_collaborators target
                               (scopedVars (sample_options [target_A]))))
             (visible (targets (sample_options [target_A])))
        @ [ExpendMacros
             (snd (render sample_collaborators
                     (new_BigQueryQuery sample_collaborators
                        (last (visible (targets (sample_options [target_A]))))
                        (scopedVars (sample_options [target_A])))
                     (interpolateVariable (qm_quoteLiteral sample_collaborators))))])"
  let ?asked = "\<lparr>req_url = ''/api/tsdb/query'', req_method = POST,
     req_data = TsdbData
       (number_text sample_collaborators
          (annotation_from (sample_annotation (Some ''SELECT t''))))
       (number_text sample_collaborators
          (annotation_to (sample_annotation (Some ''SELECT t''))))
       [\<lparr>q_refId = annotation_name (sample_annotation (Some ''SELECT t'')),
         q_datasourceId = ds_id sample_datasource,
         q_rawSql = templateSrv_replace sample_collaborators ''SELECT t''
                      (annotation_scopedVars (sample_annotation (Some ''SELECT t'')))
                      (interpolateVariable (qm_quoteLiteral sample_collaborators)),
         q_format = ''table''\<rparr>]\<rparr>"
  have batch: "visible (targets (sample_options [target_A])) \<noteq> []"
    by (simp add: visible_def sample_options_def target_A_def)
  have raw: "annotation_rawQuery (sample_annotation (Some ''SELECT t'')) = Some ''SELECT t''
               \<and> ''SELECT t'' \<noteq> []"
    by (simp add: sample_annotation_def)
  note t = pipeline_passes_executor_error_through
             [of "sample_options [target_A]" sample_collaborators always_down
                 sample_datasource "[]" "sample_annotation (Some ''SELECT t'')" "''SELECT t''"]
  have failed: "fst ?sent = Inl ''503''"
    by code_simp
  have down: "always_down [] ?asked = Inl ''503''"
    by (simp add: always_down_def)
  have asked: "?asked =
          \<lparr>req_url = ''/api/tsdb/query'', req_method = POST,
           req_data = TsdbData ''0'' ''1000''
             [\<lparr>q_refId = ''deploys'', q_datasourceId = 7, q_rawSql = ''SELECT t'',
               q_format = ''table''\<rparr>]\<rparr>"
    by code_simp
  from t[THEN conjunct1, rule_format, OF batch, THEN conjunct2, rule_format, OF failed]
  have q: "fst (query sample_collaborators always_down sample_datasource
                  (sample_options [target_A]) []) = Inl ''503''" .
  from t[THEN conjunct2, rule_format, OF raw, THEN conjunct1]
  have tr: "snd (annotationQuery sample_collaborators always_down sample_datasource
                   (sample_annotation (Some ''SELECT t'')) []) = [] @ [DatasourceRequest ?asked]" .
  from t[THEN conjunct2, rule_format, OF raw, THEN conjunct2, rule_format, OF down]
  have res: "fst (annotationQuery sample_collaborators always_down sample_datasource
                    (sample_annotation (Some ''SELECT t'')) []) = Inl (ExecutorError ''503'')" .
  have a: "annotationQuery sample_collaborators always_down sample_datasource
        (sample_annotation (Some ''SELECT t'')) []
       = (Inl (ExecutorError ''503''),
          [DatasourceRequest
             \<lparr>req_url = ''/api/tsdb/query'', req_method = POST,
              req_data = TsdbData ''0'' ''1000''
                [\<lparr>q_refId = ''deploys'', q_datasourceId = 7, q_rawSql = ''SELECT t'',
                  q_format = ''table''\<rparr>]\<rparr>])"
    using tr res unfolding asked by (simp add: prod_eq_iff)
  show ?thesis
    by (intro conjI batch q raw[THEN conjunct1] a)
qed

end
